theory Spec2Isabelle
  imports Main "HOL-Library.Multiset"
begin

section \<open>JavaScript strings and values\<close>

text \<open>
  Strings are lists of characters. The case mappings \<open>toLowerCase\<close> and \<open>toUpperCase\<close>
  act on the ASCII letters and leave every other character as it is; \<open>trim\<close> removes the
  ASCII white space (tab, line feed, vertical tab, form feed, carriage return, space) at
  both ends. \<open>strIncludes\<close> is \<open>String.prototype.includes\<close>: the needle occurs as a
  contiguous run of characters.
\<close>

definition toLowerChar :: "char \<Rightarrow> char" where
  "toLowerChar c =
     (let n = (of_char c :: nat) in if 65 \<le> n \<and> n \<le> 90 then char_of (n + 32) else c)"

definition toUpperChar :: "char \<Rightarrow> char" where
  "toUpperChar c =
     (let n = (of_char c :: nat) in if 97 \<le> n \<and> n \<le> 122 then char_of (n - 32) else c)"

definition toLowerCase :: "string \<Rightarrow> string" where
  "toLowerCase s = map toLowerChar s"

definition toUpperCase :: "string \<Rightarrow> string" where
  "toUpperCase s = map toUpperChar s"

fun startsWith :: "string \<Rightarrow> string \<Rightarrow> bool" where
  "startsWith s [] = True"
| "startsWith [] (c # cs) = False"
| "startsWith (x # xs) (c # cs) = (x = c \<and> startsWith xs cs)"

fun strIncludes :: "string \<Rightarrow> string \<Rightarrow> bool" where
  "strIncludes [] needle = (needle = [])"
| "strIncludes (x # xs) needle = (startsWith (x # xs) needle \<or> strIncludes xs needle)"

definition isWhiteSpace :: "char \<Rightarrow> bool" where
  "isWhiteSpace c = (let n = (of_char c :: nat) in (9 \<le> n \<and> n \<le> 13) \<or> n = 32)"

definition trim :: "string \<Rightarrow> string" where
  "trim s = rev (dropWhile isWhiteSpace (rev (dropWhile isWhiteSpace s)))"

text \<open>The double quotation mark and the apostrophe (single quotation mark).\<close>

definition dquote :: char where
  "dquote = CHR 0x22"

definition squote :: char where
  "squote = CHR 0x27"

text \<open>
  An optional string read the way \<open>(x || '')\<close> reads it, and its truthiness: \<open>undefined\<close>
  and the empty string are falsy.
\<close>

definition orEmpty :: "string option \<Rightarrow> string" where
  "orEmpty x = (case x of None \<Rightarrow> [] | Some s \<Rightarrow> s)"

definition truthyStr :: "string option \<Rightarrow> bool" where
  "truthyStr x = (case x of None \<Rightarrow> False | Some s \<Rightarrow> s \<noteq> [])"

text \<open>
  \<open>x?.length\<close> as a condition: true for an array that is present and not empty.
  An array that is present is truthy even when it is empty.
\<close>

definition truthyLength :: "'a list option \<Rightarrow> bool" where
  "truthyLength x = (case x of None \<Rightarrow> False | Some xs \<Rightarrow> length xs \<noteq> 0)"

definition present :: "'a option \<Rightarrow> bool" where
  "present x = (case x of None \<Rightarrow> False | Some _ \<Rightarrow> True)"

text \<open>A value that may be \<open>null\<close> or \<open>undefined\<close> where an object is expected.\<close>

datatype 'a nullable = Nullish | Obj 'a

text \<open>
  A field that should hold an array: \<open>FieldMissing\<close> is a field that is absent or holds
  a falsy value (\<open>undefined\<close>, \<open>null\<close>, \<open>0\<close>, the empty string, \<open>false\<close>),
  \<open>FieldNotArray\<close> a truthy value that is not an array and so has no \<open>forEach\<close> (an
  object such as \<open>{}\<close>, a number, a non-empty string), \<open>FieldArray\<close> an array.
\<close>

datatype 'a arrayField = FieldMissing | FieldNotArray | FieldArray "'a list"

text \<open>
  The errors of the engine: the \<open>Error('No layouts available')\<close> thrown by
  \<open>findBestLayout\<close> (the specification's EmptyCandidateSet), and the \<open>TypeError\<close> that
  JavaScript raises when a property of \<open>null\<close> or \<open>undefined\<close> is read.
\<close>

datatype error = NoLayoutsAvailable | TypeError


section \<open>Data model\<close>

subsection \<open>The raw presentation (input of the extractor)\<close>

record rawDimensions =
  width_magnitude :: "int option"
  height_magnitude :: "int option"

record rawTransform =
  translateX :: "int option"
  translateY :: "int option"

record rawPlaceholder =
  raw_type :: string
  raw_index :: "int option"
  raw_parentObjectId :: "string option"

record rawShape =
  shape_placeholder :: "rawPlaceholder option"

record pageElement =
  el_objectId :: string
  el_shape :: "rawShape option"
  el_size :: "rawDimensions option"
  el_transform :: "rawTransform option"

record layoutProperties =
  lp_displayName :: "string option"

record rawLayout =
  raw_objectId :: string
  raw_layoutProperties :: "layoutProperties option"
  pageElements :: "pageElement nullable arrayField"

record presentation =
  layouts :: "rawLayout nullable arrayField"

subsection \<open>Templates (layouts) and placeholders\<close>

record bounds =
  bounds_x :: int
  bounds_y :: int
  bounds_width :: int
  bounds_height :: int

record placeholder =
  ph_objectId :: string
  ph_type :: string
  ph_index :: "int option"
  ph_bounds :: "bounds option"
  ph_parentObjectId :: "string option"

record layout =
  objectId :: string
  layoutProperties :: "layoutProperties option"
  displayName :: "string option"
  placeholders :: "placeholder list"
  score :: int

datatype category = TitleOnly | TitleAndBody | TitleAndTwoColumns | SectionHeader | Blank | Other

subsection \<open>Content and its analysis\<close>

record content =
  title :: "string option"
  body :: "string option"
  imageUrl :: "string option"
  images :: "string list option"
  bullets :: "string list option"
  bulletPoints :: "string list option"
  columns :: "string list option"
  comparison :: bool

datatype contentLength = Short | Medium | Long

datatype contentType =
  Agenda | Quote | Section | ImageFocused | ListHeavy | Comparison | Closing | General

record contentAnalysis =
  hasTitle :: bool
  hasBody :: bool
  hasImage :: bool
  hasBullets :: bool
  hasMultipleColumns :: bool
  contentLength :: contentLength
  contentType :: contentType
  imageCount :: nat
  bulletCount :: nat

record matchResult =
  bestLayout :: layout
  alternatives :: "layout list"
  contentAnalysis :: contentAnalysis
  reasoning :: string


section \<open>Template extractor (LayoutAnalyzer, src/core/layout-analyzer.js)\<close>

text \<open>\<open>x || 0\<close> on an optional number.\<close>

definition orZero :: "int option \<Rightarrow> int" where
  "orZero v = (case v of None \<Rightarrow> 0 | Some n \<Rightarrow> n)"

definition extractPlaceholder :: "pageElement \<Rightarrow> placeholder option" where
  "extractPlaceholder element =
     (case el_shape element of
        None \<Rightarrow> None
      | Some shape \<Rightarrow>
          (case shape_placeholder shape of
             None \<Rightarrow> None
           | Some p \<Rightarrow>
               Some \<lparr> ph_objectId = el_objectId element,
                      ph_type = raw_type p,
                      ph_index = raw_index p,
                      ph_bounds =
                        (case (el_size element, el_transform element) of
                           (Some sz, Some tr) \<Rightarrow>
                             Some \<lparr> bounds_x = orZero (translateX tr),
                                    bounds_y = orZero (translateY tr),
                                    bounds_width = orZero (width_magnitude sz),
                                    bounds_height = orZero (height_magnitude sz) \<rparr>
                         | _ \<Rightarrow> None),
                      ph_parentObjectId = raw_parentObjectId p \<rparr>))"

text \<open>
  \<open>layout.pageElements.forEach(element => ...)\<close>: the elements are visited in order and
  each placeholder found is pushed. Reading \<open>element.shape\<close> of an element that is
  \<open>null\<close> or \<open>undefined\<close> raises.
\<close>

fun forEachElement :: "placeholder list \<Rightarrow> pageElement nullable list \<Rightarrow> error + placeholder list"
  where
  "forEachElement acc [] = Inr acc"
| "forEachElement acc (Nullish # rest) = Inl TypeError"
| "forEachElement acc (Obj element # rest) =
     forEachElement
       (case extractPlaceholder element of None \<Rightarrow> acc | Some p \<Rightarrow> acc @ [p]) rest"

text \<open>
  Only a falsy \<open>pageElements\<close> is guarded (\<open>if (!layout.pageElements) return []\<close>): a
  truthy value that is not an array raises at \<open>forEach\<close>.
\<close>

definition extractPlaceholders :: "rawLayout \<Rightarrow> error + placeholder list" where
  "extractPlaceholders l =
     (case pageElements l of
        FieldMissing \<Rightarrow> Inr []
      | FieldNotArray \<Rightarrow> Inl TypeError
      | FieldArray elements \<Rightarrow> forEachElement [] elements)"

text \<open>The \<open>layoutInfo\<close> object built for one raw layout.\<close>

definition extractLayout :: "rawLayout \<Rightarrow> error + layout" where
  "extractLayout l =
     (case extractPlaceholders l of
        Inl e \<Rightarrow> Inl e
      | Inr phs \<Rightarrow>
          Inr \<lparr> objectId = raw_objectId l,
                layoutProperties = raw_layoutProperties l,
                displayName =
                  (case raw_layoutProperties l of
                     None \<Rightarrow> Some ''Unnamed Layout''
                   | Some props \<Rightarrow>
                       (if truthyStr (lp_displayName props) then lp_displayName props
                        else Some ''Unnamed Layout'')),
                placeholders = phs,
                score = 0 \<rparr>)"

text \<open>
  \<open>presentation.layouts.forEach(layout => ...)\<close>: reading \<open>layout.objectId\<close> of an entry
  that is \<open>null\<close> or \<open>undefined\<close> raises.
\<close>

fun forEachLayout :: "layout list \<Rightarrow> rawLayout nullable list \<Rightarrow> error + layout list" where
  "forEachLayout acc [] = Inr acc"
| "forEachLayout acc (Nullish # rest) = Inl TypeError"
| "forEachLayout acc (Obj l # rest) =
     (case extractLayout l of
        Inl e \<Rightarrow> Inl e
      | Inr layoutInfo \<Rightarrow> forEachLayout (acc @ [layoutInfo]) rest)"

text \<open>
  \<open>extractLayouts\<close> reads \<open>presentation.layouts\<close> first: on \<open>null\<close> or \<open>undefined\<close> that
  read raises. Only a falsy \<open>layouts\<close> is guarded (\<open>if (!presentation.layouts) return []\<close>);
  a truthy value that is not an array raises at \<open>forEach\<close>.
\<close>

definition extractLayouts :: "presentation nullable \<Rightarrow> error + layout list" where
  "extractLayouts p =
     (case p of
        Nullish \<Rightarrow> Inl TypeError
      | Obj pres \<Rightarrow>
          (case layouts pres of
             FieldMissing \<Rightarrow> Inr []
           | FieldNotArray \<Rightarrow> Inl TypeError
           | FieldArray ls \<Rightarrow> forEachLayout [] ls))"

text \<open>
  The raw layouts that \<open>extractLayouts\<close> can read: an entry that is an object and whose
  \<open>pageElements\<close> is missing or an array of objects.
\<close>

definition elementsReadable :: "pageElement nullable arrayField \<Rightarrow> bool" where
  "elementsReadable f =
     (case f of
        FieldMissing \<Rightarrow> True
      | FieldNotArray \<Rightarrow> False
      | FieldArray es \<Rightarrow> list_all (\<lambda>e. e \<noteq> Nullish) es)"

definition layoutReadable :: "rawLayout nullable \<Rightarrow> bool" where
  "layoutReadable e =
     (case e of Nullish \<Rightarrow> False | Obj l \<Rightarrow> elementsReadable (pageElements l))"


section \<open>Template categorizers\<close>

text \<open>The extractor-side categorizer, \<open>LayoutAnalyzer.determineLayoutCategory\<close>.\<close>

definition determineLayoutCategory :: "string list \<Rightarrow> string option \<Rightarrow> category" where
  "determineLayoutCategory placeholderTypes name =
     (let nameUpper = toUpperCase (orEmpty name) in
      if strIncludes nameUpper ''TITLE_ONLY'' \<or> strIncludes nameUpper ''TITLE ONLY'' then TitleOnly
      else if strIncludes nameUpper ''SECTION_HEADER'' \<or> strIncludes nameUpper ''SECTION HEADER''
        then SectionHeader
      else if strIncludes nameUpper ''TWO_COLUMNS'' \<or> strIncludes nameUpper ''TWO COLUMNS''
        then TitleAndTwoColumns
      else if strIncludes nameUpper ''BLANK'' then Blank
      else
        (let hasTitle = (''TITLE'' \<in> set placeholderTypes
                          \<or> ''CENTERED_TITLE'' \<in> set placeholderTypes);
             hasBody = (''BODY'' \<in> set placeholderTypes \<or> ''SUBTITLE'' \<in> set placeholderTypes);
             hasContent = (''CONTENT'' \<in> set placeholderTypes);
             bodyCount = length (filter (\<lambda>t. t = ''BODY'' \<or> t = ''CONTENT'' \<or> t = ''SUBTITLE'')
                                   placeholderTypes)
         in if hasTitle \<and> \<not> hasBody \<and> \<not> hasContent then TitleOnly
            else if hasTitle \<and> (hasBody \<or> hasContent) \<and> bodyCount = 1 then TitleAndBody
            else if hasTitle \<and> bodyCount \<ge> 2 then TitleAndTwoColumns
            else if hasTitle \<and> ''SUBTITLE'' \<in> set placeholderTypes then SectionHeader
            else if length placeholderTypes = 0 then Blank
            else Other))"

text \<open>The scorer-side categorizer, \<open>ContentMatcher.getLayoutCategory\<close>.\<close>

definition getLayoutCategory :: "layout \<Rightarrow> category" where
  "getLayoutCategory l =
     (let placeholderTypes = map ph_type (placeholders l);
          name = toUpperCase (orEmpty (displayName l)) in
      if strIncludes name ''TITLE_ONLY'' \<or> strIncludes name ''TITLE ONLY'' then TitleOnly
      else if strIncludes name ''SECTION_HEADER'' then SectionHeader
      else if strIncludes name ''TWO_COLUMNS'' then TitleAndTwoColumns
      else if strIncludes name ''BLANK'' then Blank
      else
        (let hasTitle = (''TITLE'' \<in> set placeholderTypes);
             hasBody = (''BODY'' \<in> set placeholderTypes);
             bodyCount = length (filter (\<lambda>t. t = ''BODY'' \<or> t = ''CONTENT'') placeholderTypes)
         in if hasTitle \<and> \<not> hasBody then TitleOnly
            else if hasTitle \<and> hasBody \<and> bodyCount = 1 then TitleAndBody
            else if hasTitle \<and> bodyCount \<ge> 2 then TitleAndTwoColumns
            else if ''SUBTITLE'' \<in> set placeholderTypes then SectionHeader
            else if length placeholderTypes = 0 then Blank
            else Other))"


section \<open>Content classifier (ContentMatcher.analyzeContent, determineContentType)\<close>

text \<open>
  The body matches the regular expression \<open>/["'']/\<close> when it contains a character of the
  class: the double quotation mark or the apostrophe.
\<close>

definition matchesQuoteClass :: "string \<Rightarrow> bool" where
  "matchesQuoteClass s = list_ex (\<lambda>c. c = dquote \<or> c = squote) s"

definition determineContentType :: "content \<Rightarrow> contentAnalysis \<Rightarrow> contentType" where
  "determineContentType c analysis =
     (let t = toLowerCase (orEmpty (title c));
          b = toLowerCase (orEmpty (body c)) in
      if strIncludes t ''agenda'' \<or> strIncludes b ''agenda'' then Agenda
      else if strIncludes t ''quote'' \<or> matchesQuoteClass b then Quote
      else if strIncludes t ''section'' \<or> strIncludes t ''chapter'' then Section
      else if hasImage analysis \<and> \<not> hasBody analysis then ImageFocused
      else if hasBullets analysis \<and> bulletCount analysis > 5 then ListHeavy
      else if comparison c \<or> strIncludes t ''vs'' \<or> strIncludes t ''versus'' then Comparison
      else if strIncludes t ''thank'' \<or> strIncludes t ''conclusion'' then Closing
      else General)"

definition analyzeContent :: "content \<Rightarrow> contentAnalysis" where
  "analyzeContent c =
     (let analysis =
            \<lparr> hasTitle = (truthyStr (title c) \<and> trim (orEmpty (title c)) \<noteq> []),
              hasBody = (truthyStr (body c) \<and> trim (orEmpty (body c)) \<noteq> []),
              hasImage = (truthyStr (imageUrl c) \<or> truthyLength (images c)),
              hasBullets = (truthyLength (bullets c) \<or> truthyLength (bulletPoints c)),
              hasMultipleColumns = (case columns c of None \<Rightarrow> False | Some cs \<Rightarrow> length cs > 1),
              contentLength = Short,
              contentType = General,
              imageCount = 0,
              bulletCount = 0 \<rparr>;
          bodyText = orEmpty (body c);
          analysis =
            (if length bodyText > 500 then analysis\<lparr>contentLength := Long\<rparr>
             else if length bodyText > 150 then analysis\<lparr>contentLength := Medium\<rparr>
             else analysis);
          analysis = (if truthyStr (imageUrl c) then analysis\<lparr>imageCount := 1\<rparr> else analysis);
          analysis =
            (case images c of None \<Rightarrow> analysis
             | Some imgs \<Rightarrow> analysis\<lparr>imageCount := length imgs\<rparr>);
          analysis =
            (case bullets c of None \<Rightarrow> analysis
             | Some bs \<Rightarrow> analysis\<lparr>bulletCount := length bs\<rparr>);
          analysis =
            (case bulletPoints c of None \<Rightarrow> analysis
             | Some bs \<Rightarrow> analysis\<lparr>bulletCount := length bs\<rparr>)
      in analysis\<lparr>contentType := determineContentType c analysis\<rparr>)"


section \<open>Scoring engine (ContentMatcher.getCategoryScores, calculateLayoutScore)\<close>

text \<open>
  The score matrix is an object of rows, each an object from category names to numbers.
  The tags \<open>agenda\<close> and \<open>closing\<close> have no row.
\<close>

fun scoreMatrix :: "contentType \<Rightarrow> (category \<times> int) list option" where
  "scoreMatrix Section = Some [(SectionHeader, 40), (TitleOnly, 30), (TitleAndBody, 20)]"
| "scoreMatrix Quote = Some [(SectionHeader, 35), (TitleOnly, 30), (TitleAndBody, 25)]"
| "scoreMatrix ImageFocused = Some [(Blank, 40), (TitleOnly, 35), (TitleAndBody, 20)]"
| "scoreMatrix Comparison = Some [(TitleAndTwoColumns, 40), (TitleAndBody, 25), (Blank, 20)]"
| "scoreMatrix ListHeavy = Some [(TitleAndBody, 35), (TitleAndTwoColumns, 30), (Blank, 20)]"
| "scoreMatrix General =
     Some [(TitleAndBody, 35), (TitleOnly, 25), (SectionHeader, 20), (TitleAndTwoColumns, 15),
           (Blank, 10)]"
| "scoreMatrix Agenda = None"
| "scoreMatrix Closing = None"

text \<open>\<open>scoreMatrix[tag]?.[category]\<close>: \<open>None\<close> is \<open>undefined\<close>.\<close>

definition matrixEntry :: "contentType \<Rightarrow> category \<Rightarrow> int option" where
  "matrixEntry tag cat = (case scoreMatrix tag of None \<Rightarrow> None | Some row \<Rightarrow> map_of row cat)"

text \<open>\<open>v || d\<close> on a number that may be \<open>undefined\<close>: \<open>undefined\<close> and 0 are falsy.\<close>

definition numOr :: "int option \<Rightarrow> int \<Rightarrow> int" where
  "numOr v d = (case v of None \<Rightarrow> d | Some n \<Rightarrow> if n = 0 then d else n)"

definition getCategoryScores :: "contentAnalysis \<Rightarrow> category \<Rightarrow> int" where
  "getCategoryScores analysis cat =
     numOr (matrixEntry (contentType analysis) cat) (numOr (matrixEntry General cat) 0)"

text \<open>The score of \<open>calculateLayoutScore\<close> before its last line clamps it.\<close>

definition unclampedLayoutScore :: "contentAnalysis \<Rightarrow> layout \<Rightarrow> int" where
  "unclampedLayoutScore analysis l =
     (let s = 0;
          placeholderTypes = map ph_type (placeholders l);
          cat = getLayoutCategory l;
          categoryScores = getCategoryScores analysis cat;
          s = s + categoryScores;
          s = (if hasTitle analysis \<and> ''TITLE'' \<in> set placeholderTypes then s + 20 else s);
          s = (if hasBody analysis \<and> ''BODY'' \<in> set placeholderTypes then s + 15 else s);
          s = (if hasImage analysis \<and> ''PICTURE'' \<in> set placeholderTypes then s + 10 else s);
          s = (if \<not> hasTitle analysis \<and> ''TITLE'' \<in> set placeholderTypes then s - 5 else s);
          s = (if \<not> hasBody analysis \<and> ''BODY'' \<in> set placeholderTypes then s - 5 else s);
          s = (if contentLength analysis = Long \<and> cat = TitleOnly then s - 15 else s);
          s = (if contentLength analysis = Short \<and> cat = TitleAndTwoColumns then s - 10 else s)
      in s)"

definition calculateLayoutScore :: "contentAnalysis \<Rightarrow> layout \<Rightarrow> int" where
  "calculateLayoutScore analysis l = max 0 (min 100 (unclampedLayoutScore analysis l))"


section \<open>Selector and explainer (ContentMatcher.findBestLayout, generateReasoning)\<close>

definition digitChar :: "nat \<Rightarrow> char" where
  "digitChar d = char_of (48 + d)"

function showNat :: "nat \<Rightarrow> string" where
  "showNat n = (if n < 10 then [digitChar n] else showNat (n div 10) @ [digitChar (n mod 10)])"
  by pat_completeness auto
termination
  by (relation "measure id") auto

declare showNat.simps [simp del]

definition showInt :: "int \<Rightarrow> string" where
  "showInt i = (if i < 0 then CHR ''-'' # showNat (nat (- i)) else showNat (nat i))"

fun joinWith :: "string \<Rightarrow> string list \<Rightarrow> string" where
  "joinWith sep [] = []"
| "joinWith sep [s] = s"
| "joinWith sep (s # r # rest) = s @ sep @ joinWith sep (r # rest)"

fun categoryName :: "category \<Rightarrow> string" where
  "categoryName TitleOnly = ''titleOnly''"
| "categoryName TitleAndBody = ''titleAndBody''"
| "categoryName TitleAndTwoColumns = ''titleAndTwoColumns''"
| "categoryName SectionHeader = ''sectionHeader''"
| "categoryName Blank = ''blank''"
| "categoryName Other = ''other''"

fun contentTypeName :: "contentType \<Rightarrow> string" where
  "contentTypeName Agenda = ''agenda''"
| "contentTypeName Quote = ''quote''"
| "contentTypeName Section = ''section''"
| "contentTypeName ImageFocused = ''image-focused''"
| "contentTypeName ListHeavy = ''list-heavy''"
| "contentTypeName Comparison = ''comparison''"
| "contentTypeName Closing = ''closing''"
| "contentTypeName General = ''general''"

definition generateReasoning :: "contentAnalysis \<Rightarrow> layout \<Rightarrow> string" where
  "generateReasoning analysis selectedLayout =
     (let cat = getLayoutCategory selectedLayout;
          reasons = [];
          reasons =
            (if contentType analysis \<noteq> General
             then reasons @ [''Content type '' @ [squote] @ contentTypeName (contentType analysis)
                              @ [squote] @ '' best matches '' @ categoryName cat @ '' layout'']
             else reasons);
          reasons =
            (if hasTitle analysis \<and> list_ex (\<lambda>p. ph_type p = ''TITLE'') (placeholders selectedLayout)
             then reasons @ [''Layout has title placeholder for provided title'']
             else reasons);
          reasons =
            (if hasBody analysis \<and> list_ex (\<lambda>p. ph_type p = ''BODY'') (placeholders selectedLayout)
             then reasons @ [''Layout has body placeholder for provided content'']
             else reasons);
          reasons =
            (if hasImage analysis then reasons @ [''Layout can accommodate image content'']
             else reasons);
          reasons = reasons @ [''Score: '' @ showInt (score selectedLayout) @ ''/100'']
      in joinWith ''; '' reasons)"

text \<open>
  \<open>layouts.map(layout => ({...layout, score: ...}))\<close>: every template is copied with its
  score for this content.
\<close>

definition scoreLayouts :: "contentAnalysis \<Rightarrow> layout list \<Rightarrow> layout list" where
  "scoreLayouts analysis ls = map (\<lambda>l. l\<lparr>score := calculateLayoutScore analysis l\<rparr>) ls"

text \<open>
  \<open>scoredLayouts.sort((a, b) => b.score - a.score)\<close>. \<open>Array.prototype.sort\<close> is stable
  (ECMAScript 2019; package.json asks for Node 16 or later), so the result is the stable
  sort by descending score: the insertion sort \<open>sort_key\<close> on the negated score.
\<close>

definition sortByScoreDesc :: "layout list \<Rightarrow> layout list" where
  "sortByScoreDesc ls = sort_key (\<lambda>l. - score l) ls"

text \<open>
  The second argument is \<open>None\<close> for a \<open>null\<close> or \<open>undefined\<close> array (\<open>!layouts\<close>).
\<close>

definition findBestLayout :: "content \<Rightarrow> layout list option \<Rightarrow> error + matchResult" where
  "findBestLayout c ls_opt =
     (case ls_opt of
        None \<Rightarrow> Inl NoLayoutsAvailable
      | Some ls \<Rightarrow>
          if length ls = 0 then Inl NoLayoutsAvailable
          else
            (let analysis = analyzeContent c;
                 scoredLayouts = sortByScoreDesc (scoreLayouts analysis ls)
             in Inr \<lparr> bestLayout = hd scoredLayouts,
                      alternatives = take 2 (drop 1 scoredLayouts),
                      contentAnalysis = analysis,
                      reasoning = generateReasoning analysis (hd scoredLayouts) \<rparr>))"


section \<open>The inline copy of the matcher in src/n8n-functions/complete-workflow.js\<close>

text \<open>
  The all-in-one workflow node carries its own \<open>ContentMatcher\<close>, with a shorter analysis
  and its own scorer. Its definitions carry the suffix \<open>_cw\<close>. The scorer reads
  \<open>layout.displayName.toUpperCase()\<close> without a guard, which raises on a template
  without a display name.
\<close>

record contentAnalysis_cw =
  cw_hasTitle :: bool
  cw_hasBody :: bool
  cw_hasImage :: bool
  cw_hasBullets :: bool
  cw_contentLength :: contentLength
  cw_contentType :: contentType

definition determineContentType_cw :: "content \<Rightarrow> contentType" where
  "determineContentType_cw c =
     (let t = toLowerCase (orEmpty (title c));
          b = toLowerCase (orEmpty (body c)) in
      if strIncludes t ''agenda'' then Agenda
      else if strIncludes t ''quote'' \<or> strIncludes b [dquote] then Quote
      else if strIncludes t ''section'' then Section
      else if truthyStr (imageUrl c) \<and> \<not> truthyStr (body c) then ImageFocused
      else if (case bullets c of None \<Rightarrow> False | Some bs \<Rightarrow> length bs > 3) then ListHeavy
      else if strIncludes t ''vs'' \<or> strIncludes t ''comparison'' then Comparison
      else General)"

definition analyzeContent_cw :: "content \<Rightarrow> contentAnalysis_cw" where
  "analyzeContent_cw c =
     \<lparr> cw_hasTitle = (truthyStr (title c) \<and> trim (orEmpty (title c)) \<noteq> []),
       cw_hasBody = (truthyStr (body c) \<and> trim (orEmpty (body c)) \<noteq> []),
       cw_hasImage = (truthyStr (imageUrl c) \<or> truthyLength (images c)),
       cw_hasBullets = truthyLength (bullets c),
       cw_contentLength = (if length (orEmpty (body c)) > 300 then Long else Short),
       cw_contentType = determineContentType_cw c \<rparr>"

definition calculateLayoutScore_cw :: "contentAnalysis_cw \<Rightarrow> layout \<Rightarrow> error + int" where
  "calculateLayoutScore_cw analysis l =
     (let s = 30;
          phs = map ph_type (placeholders l);
          s = (if cw_hasTitle analysis \<and> ''TITLE'' \<in> set phs then s + 25
               else if cw_hasTitle analysis \<and> ''TITLE'' \<notin> set phs then s - 10
               else s);
          s = (if cw_hasBody analysis \<and> ''BODY'' \<in> set phs then s + 20
               else if cw_hasBody analysis \<and> ''BODY'' \<notin> set phs then s - 10
               else s);
          s = (if cw_hasImage analysis \<and> ''PICTURE'' \<in> set phs then s + 15 else s)
      in case displayName l of
           None \<Rightarrow> Inl TypeError
         | Some n \<Rightarrow>
             (let name = toUpperCase n;
                  s = (if cw_contentType analysis = Section \<and> strIncludes name ''SECTION''
                       then s + 20 else s);
                  s = (if cw_contentType analysis = Comparison \<and> strIncludes name ''TWO''
                       then s + 15 else s)
              in Inr (max 0 s)))"


section \<open>Example inputs\<close>

definition mkPlaceholder :: "string \<Rightarrow> string \<Rightarrow> placeholder" where
  "mkPlaceholder i t =
     \<lparr> ph_objectId = i, ph_type = t, ph_index = None, ph_bounds = None,
       ph_parentObjectId = None \<rparr>"

definition mkLayout :: "string \<Rightarrow> string \<Rightarrow> placeholder list \<Rightarrow> layout" where
  "mkLayout i n phs =
     \<lparr> objectId = i, layoutProperties = Some \<lparr> lp_displayName = Some n \<rparr>,
       displayName = Some n, placeholders = phs, score = 0 \<rparr>"

definition emptyContent :: content where
  "emptyContent =
     \<lparr> title = None, body = None, imageUrl = None, images = None, bullets = None,
       bulletPoints = None, columns = None, comparison = False \<rparr>"

text \<open>\<open>{title: "Weekly Agenda and Quote"}\<close>\<close>

definition weeklyAgendaContent :: content where
  "weeklyAgendaContent = emptyContent\<lparr> title := Some ''Weekly Agenda and Quote'' \<rparr>"

text \<open>\<open>{title: "Status", body: "It's on track"}\<close>: the body has an apostrophe and no other
  punctuation.\<close>

definition apostropheContent :: content where
  "apostropheContent =
     emptyContent\<lparr> title := Some ''Status'', body := Some (''It'' @ [squote] @ ''s on track'') \<rparr>"

text \<open>\<open>{title: "A vs B"}\<close>\<close>

definition comparisonContent :: content where
  "comparisonContent = emptyContent\<lparr> title := Some ''A vs B'' \<rparr>"

text \<open>\<open>{title: "Section 1", body: "Overview", imageUrl: "https://example.com/a.png"}\<close>\<close>

definition sectionContent :: content where
  "sectionContent =
     emptyContent\<lparr> title := Some ''Section 1'', body := Some ''Overview'',
                   imageUrl := Some ''https://example.com/a.png'' \<rparr>"

text \<open>\<open>{title: "Q1 Strategy", body: "Plan for the quarter", bullets: ["A", "B"]}\<close>\<close>

definition strategyContent :: content where
  "strategyContent =
     emptyContent\<lparr> title := Some ''Q1 Strategy'', body := Some ''Plan for the quarter'',
                   bullets := Some [''A'', ''B''] \<rparr>"

text \<open>A template named "Section header" with a title, a body and a picture placeholder.\<close>

definition sectionLayout :: layout where
  "sectionLayout =
     mkLayout ''layout_section'' ''Section header''
       [mkPlaceholder ''p1'' ''TITLE'', mkPlaceholder ''p2'' ''BODY'',
        mkPlaceholder ''p3'' ''PICTURE'']"

text \<open>A template named "Section header" with a title placeholder only.\<close>

definition sectionHeaderLayout :: layout where
  "sectionHeaderLayout =
     mkLayout ''layout_header'' ''Section header'' [mkPlaceholder ''p1'' ''TITLE'']"

text \<open>A template named "Custom" with a title placeholder and two subtitle placeholders.\<close>

definition twoSubtitleLayout :: layout where
  "twoSubtitleLayout =
     mkLayout ''layout_custom'' ''Custom''
       [mkPlaceholder ''p1'' ''TITLE'', mkPlaceholder ''p2'' ''SUBTITLE'',
        mkPlaceholder ''p3'' ''SUBTITLE'']"

text \<open>Four templates in extraction order; the second and the third tie on every content.\<close>

definition candidateLayouts :: "layout list" where
  "candidateLayouts =
     [mkLayout ''layout_blank'' ''Blank'' [],
      mkLayout ''layout_body'' ''Title and body''
        [mkPlaceholder ''p1'' ''TITLE'', mkPlaceholder ''p2'' ''BODY''],
      mkLayout ''layout_main'' ''Main point''
        [mkPlaceholder ''p3'' ''TITLE'', mkPlaceholder ''p4'' ''BODY''],
      mkLayout ''layout_title'' ''Title only'' [mkPlaceholder ''p5'' ''TITLE'']]"

text \<open>\<open>{}\<close> and \<open>{layouts: []}\<close>\<close>

definition presentationWithoutLayouts :: presentation where
  "presentationWithoutLayouts = \<lparr> layouts = FieldMissing \<rparr>"

definition presentationZeroLayouts :: presentation where
  "presentationZeroLayouts = \<lparr> layouts = FieldArray [] \<rparr>"

text \<open>Malformed presentations: \<open>{layouts: {}}\<close>, \<open>{layouts: [null]}\<close> and
  \<open>{layouts: [{objectId: "layout_1", pageElements: {}}]}\<close>.\<close>

definition presentationLayoutsNotArray :: presentation where
  "presentationLayoutsNotArray = \<lparr> layouts = FieldNotArray \<rparr>"

definition presentationNullLayout :: presentation where
  "presentationNullLayout = \<lparr> layouts = FieldArray [Nullish] \<rparr>"

definition presentationElementsNotArray :: presentation where
  "presentationElementsNotArray =
     \<lparr> layouts = FieldArray
         [Obj \<lparr> raw_objectId = ''layout_1'', raw_layoutProperties = None,
                pageElements = FieldNotArray \<rparr>] \<rparr>"

text \<open>A presentation with two layouts; the first has a title placeholder and a shape
  that is not a placeholder, the second has no page elements.\<close>

definition presentationTwoLayouts :: presentation where
  "presentationTwoLayouts =
     \<lparr> layouts = FieldArray
         [Obj \<lparr> raw_objectId = ''layout_1'',
                raw_layoutProperties = Some \<lparr> lp_displayName = Some ''Title only'' \<rparr>,
                pageElements = FieldArray
                  [Obj \<lparr> el_objectId = ''e1'',
                         el_shape = Some \<lparr> shape_placeholder =
                           Some \<lparr> raw_type = ''TITLE'', raw_index = Some 0,
                                  raw_parentObjectId = None \<rparr> \<rparr>,
                         el_size = None, el_transform = None \<rparr>,
                   Obj \<lparr> el_objectId = ''e2'',
                         el_shape = Some \<lparr> shape_placeholder = None \<rparr>,
                         el_size = None, el_transform = None \<rparr>] \<rparr>,
          Obj \<lparr> raw_objectId = ''layout_2'', raw_layoutProperties = None,
                pageElements = FieldMissing \<rparr>] \<rparr>"


section \<open>Facts about strings\<close>

lemma startsWith_iff: "startsWith s n \<longleftrightarrow> (\<exists>post. s = n @ post)"
  by (induction s n rule: startsWith.induct) auto

text \<open>\<open>strIncludes\<close> holds exactly when the needle is a contiguous part of the string.\<close>

lemma strIncludes_iff: "strIncludes s n \<longleftrightarrow> (\<exists>pre post. s = pre @ n @ post)"
proof (induction s)
  case Nil
  show ?case by simp
next
  case (Cons a s)
  have "(\<exists>pre post. a # s = pre @ n @ post)
          \<longleftrightarrow> (\<exists>post. a # s = n @ post) \<or> (\<exists>pre post. s = pre @ n @ post)"
  proof
    assume "\<exists>pre post. a # s = pre @ n @ post"
    then obtain pre post where e: "a # s = pre @ n @ post" by blast
    show "(\<exists>post. a # s = n @ post) \<or> (\<exists>pre post. s = pre @ n @ post)"
    proof (cases pre)
      case Nil
      with e show ?thesis by auto
    next
      case (Cons p ps)
      with e have "s = ps @ n @ post" by simp
      then show ?thesis by blast
    qed
  next
    assume "(\<exists>post. a # s = n @ post) \<or> (\<exists>pre post. s = pre @ n @ post)"
    then show "\<exists>pre post. a # s = pre @ n @ post"
    proof
      assume "\<exists>post. a # s = n @ post"
      then obtain post where "a # s = [] @ n @ post" by auto
      then show ?thesis by blast
    next
      assume "\<exists>pre post. s = pre @ n @ post"
      then obtain pre post where "a # s = (a # pre) @ n @ post" by auto
      then show ?thesis by blast
    qed
  qed
  with Cons show ?case by (simp add: startsWith_iff)
qed

text \<open>
  The test \<open>s.toLowerCase().includes(tok)\<close> holds exactly when some contiguous part of \<open>s\<close>
  is \<open>tok\<close> up to the case of its letters.
\<close>

lemma strIncludes_toLowerCase_iff:
  "strIncludes (toLowerCase s) tok
     \<longleftrightarrow> (\<exists>pre w post. s = pre @ w @ post \<and> toLowerCase w = tok)"
proof
  assume "strIncludes (toLowerCase s) tok"
  then obtain p q where "map toLowerChar s = p @ tok @ q"
    by (auto simp: strIncludes_iff toLowerCase_def)
  then obtain pre rest where s: "s = pre @ rest" and "tok @ q = map toLowerChar rest"
    unfolding map_eq_append_conv by blast
  then obtain w post where "rest = w @ post" and "map toLowerChar w = tok"
    unfolding append_eq_map_conv by blast
  with s show "\<exists>pre w post. s = pre @ w @ post \<and> toLowerCase w = tok"
    by (auto simp: toLowerCase_def)
next
  assume "\<exists>pre w post. s = pre @ w @ post \<and> toLowerCase w = tok"
  then obtain pre w post where "s = pre @ w @ post" and "toLowerCase w = tok" by blast
  then have "toLowerCase s = toLowerCase pre @ tok @ toLowerCase post"
    by (auto simp: toLowerCase_def)
  then show "strIncludes (toLowerCase s) tok"
    unfolding strIncludes_iff by blast
qed

text \<open>Lower-casing neither creates nor removes a quotation mark.\<close>

lemma toLowerChar_dquote: "toLowerChar c = dquote \<longleftrightarrow> c = dquote"
proof -
  have up: False if a: "65 \<le> n" "n \<le> 90" and e: "char_of (n + 32) = CHR 0x22" for n :: nat
  proof -
    from e have "of_char (char_of (n + 32) :: char) = (of_char (CHR 0x22) :: nat)" by simp
    then have "(n + 32) mod 256 = 34" by simp
    with a show False by simp
  qed
  have "\<not> (65 \<le> (of_char (CHR 0x22) :: nat))" by simp
  with up[of "of_char c"] show ?thesis
    by (auto simp: toLowerChar_def dquote_def Let_def)
qed

lemma toLowerChar_squote: "toLowerChar c = squote \<longleftrightarrow> c = squote"
proof -
  have up: False if a: "65 \<le> n" "n \<le> 90" and e: "char_of (n + 32) = CHR 0x27" for n :: nat
  proof -
    from e have "of_char (char_of (n + 32) :: char) = (of_char (CHR 0x27) :: nat)" by simp
    then have "(n + 32) mod 256 = 39" by simp
    with a show False by simp
  qed
  have "\<not> (65 \<le> (of_char (CHR 0x27) :: nat))" by simp
  with up[of "of_char c"] show ?thesis
    by (auto simp: toLowerChar_def squote_def Let_def)
qed

lemma matchesQuoteClass_toLowerCase:
  "matchesQuoteClass (toLowerCase s) \<longleftrightarrow> dquote \<in> set s \<or> squote \<in> set s"
  by (auto simp: matchesQuoteClass_def toLowerCase_def list_ex_iff
        toLowerChar_dquote toLowerChar_squote)


section \<open>The content classifier\<close>

text \<open>
  Claim C5. Content whose title or body contains "agenda", in any mix of upper and lower
  case, is classified as agenda, whatever the later rules would say: the agenda test is the
  first of \<open>determineContentType\<close>. The analysis argument of \<open>determineContentType\<close> is
  arbitrary, and the tag that \<open>analyzeContent\<close> stores is agenda as well.
\<close>

theorem agenda_rule_has_priority:
  assumes "(\<exists>pre w post. orEmpty (title c) = pre @ w @ post \<and> toLowerCase w = ''agenda'')
         \<or> (\<exists>pre w post. orEmpty (body c) = pre @ w @ post \<and> toLowerCase w = ''agenda'')"
  shows "determineContentType c a = Agenda \<and> contentType (analyzeContent c) = Agenda"
proof -
  from assms have "strIncludes (toLowerCase (orEmpty (title c))) ''agenda''
      \<or> strIncludes (toLowerCase (orEmpty (body c))) ''agenda''"
    unfolding strIncludes_toLowerCase_iff .
  then have "determineContentType c b = Agenda" for b
    by (auto simp: determineContentType_def Let_def)
  then show ?thesis
    by (simp add: analyzeContent_def Let_def)
qed

text \<open>The content \<open>{title: "Weekly Agenda and Quote"}\<close> classifies as agenda.\<close>

theorem agenda_rule_has_priority_witness:
  "strIncludes (toLowerCase (orEmpty (title weeklyAgendaContent))) ''quote''
   \<and> determineContentType weeklyAgendaContent (analyzeContent weeklyAgendaContent) = Agenda
   \<and> contentType (analyzeContent weeklyAgendaContent) = Agenda"
proof -
  have "orEmpty (title weeklyAgendaContent) = ''Weekly '' @ ''Agenda'' @ '' and Quote''"
    by (simp add: weeklyAgendaContent_def emptyContent_def orEmpty_def)
  moreover have "toLowerCase ''Agenda'' = ''agenda''"
    by code_simp
  ultimately have "\<exists>pre w post. orEmpty (title weeklyAgendaContent) = pre @ w @ post
      \<and> toLowerCase w = ''agenda''"
    by blast
  moreover have "strIncludes (toLowerCase (orEmpty (title weeklyAgendaContent))) ''quote''"
    by code_simp
  ultimately show ?thesis
    using agenda_rule_has_priority
      [of weeklyAgendaContent "analyzeContent weeklyAgendaContent"]
    by blast
qed

text \<open>
  Claim C9, as stated, fails: the quote rule tests the body against the character class
  of the double quotation mark and the apostrophe. The content
  \<open>{title: "Status", body: "It's on track"}\<close> does not match the agenda rule, its title
  does not contain "quote", its body contains no double quotation mark, and it is
  classified as quote.
\<close>

theorem apostrophe_body_classifies_as_quote:
  "\<not> strIncludes (toLowerCase (orEmpty (title apostropheContent))) ''agenda''
   \<and> \<not> strIncludes (toLowerCase (orEmpty (body apostropheContent))) ''agenda''
   \<and> \<not> strIncludes (toLowerCase (orEmpty (title apostropheContent))) ''quote''
   \<and> dquote \<notin> set (orEmpty (body apostropheContent))
   \<and> contentType (analyzeContent apostropheContent) = Quote"
  by code_simp

text \<open>
  Claim C9, amended. For content that does not match the agenda rule, the classifier
  assigns quote if and only if the title contains "quote" (in any case) or the body
  contains a double quotation mark or an apostrophe.
\<close>

theorem quote_rule:
  assumes "\<not> strIncludes (toLowerCase (orEmpty (title c))) ''agenda''"
      and "\<not> strIncludes (toLowerCase (orEmpty (body c))) ''agenda''"
  shows "contentType (analyzeContent c) = Quote
         \<longleftrightarrow> strIncludes (toLowerCase (orEmpty (title c))) ''quote''
             \<or> dquote \<in> set (orEmpty (body c)) \<or> squote \<in> set (orEmpty (body c))"
proof -
  have "determineContentType c b = Quote
         \<longleftrightarrow> strIncludes (toLowerCase (orEmpty (title c))) ''quote''
             \<or> matchesQuoteClass (toLowerCase (orEmpty (body c)))" for b
    using assms by (simp add: determineContentType_def Let_def)
  then show ?thesis
    by (simp add: analyzeContent_def Let_def matchesQuoteClass_toLowerCase)
qed

theorem quote_rule_witness:
  "squote \<in> set (orEmpty (body apostropheContent))
   \<and> contentType (analyzeContent apostropheContent) = Quote"
proof -
  have a: "\<not> strIncludes (toLowerCase (orEmpty (title apostropheContent))) ''agenda''"
    by code_simp
  have b: "\<not> strIncludes (toLowerCase (orEmpty (body apostropheContent))) ''agenda''"
    by code_simp
  have s: "squote \<in> set (orEmpty (body apostropheContent))"
    by code_simp
  from quote_rule [OF a b] s show ?thesis by blast
qed


section \<open>The scoring engine\<close>

lemma getCategoryScores_le_40: "getCategoryScores a cat \<le> 40"
  by (cases "contentType a"; cases cat;
      simp add: getCategoryScores_def matrixEntry_def numOr_def)

lemma getCategoryScores_ge_0: "0 \<le> getCategoryScores a cat"
  by (cases "contentType a"; cases cat;
      simp add: getCategoryScores_def matrixEntry_def numOr_def)

lemma unclampedLayoutScore_le_base:
  "unclampedLayoutScore a l \<le> getCategoryScores a (getLayoutCategory l) + 45"
  by (simp add: unclampedLayoutScore_def Let_def)

lemma unclampedLayoutScore_le_85: "unclampedLayoutScore a l \<le> 85"
  using getCategoryScores_le_40 [of a "getLayoutCategory l"] unclampedLayoutScore_le_base [of a l]
  by linarith

text \<open>The canonical scorer clamps: its result lies between 0 and 100.\<close>

lemma calculateLayoutScore_range:
  "0 \<le> calculateLayoutScore a l \<and> calculateLayoutScore a l \<le> 100"
  by (simp add: calculateLayoutScore_def)

text \<open>The bound 85 is reached: a section content on a section-header template with title,
  body and picture placeholders.\<close>

lemma calculateLayoutScore_reaches_85:
  "calculateLayoutScore (analyzeContent sectionContent)
     (mkLayout ''layout_section'' ''SECTION_HEADER''
        [mkPlaceholder ''p1'' ''TITLE'', mkPlaceholder ''p2'' ''BODY'',
         mkPlaceholder ''p3'' ''PICTURE'']) = 85"
  by code_simp

text \<open>
  Claim C10. No base-table entry exceeds 40 and the bonuses add at most 20 + 15 + 10, so
  the score before clamping is at most 85 for every analysis and template: the upper
  clamp \<open>Math.min(100, score)\<close> leaves it unchanged, and the result of
  \<open>calculateLayoutScore\<close> never exceeds 85.
\<close>

theorem canonical_score_at_most_85:
  "getCategoryScores a cat \<le> 40
   \<and> unclampedLayoutScore a l \<le> 85
   \<and> min 100 (unclampedLayoutScore a l) = unclampedLayoutScore a l
   \<and> calculateLayoutScore a l \<le> 85"
  using unclampedLayoutScore_le_85 [of a l] getCategoryScores_le_40 [of a cat]
  by (simp add: calculateLayoutScore_def)

text \<open>
  Claim C2 fails on the inline scorer of complete-workflow.js, which ends with
  \<open>Math.max(0, score)\<close> and has no upper clamp. For the content
  \<open>{title: "Section 1", body: "Overview", imageUrl: "https://example.com/a.png"}\<close> and a
  template named "Section header" with title, body and picture placeholders it returns
  30 + 25 + 20 + 15 + 20 = 110. (The canonical scorer stays within 0 and 100, see
  \<open>calculateLayoutScore_range\<close>.)
\<close>

theorem calculateLayoutScore_cw_exceeds_100:
  "cw_contentType (analyzeContent_cw sectionContent) = Section
   \<and> calculateLayoutScore_cw (analyzeContent_cw sectionContent) sectionLayout = Inr 110"
  by code_simp

text \<open>
  Claim C4, as stated, fails: a category missing from the row of a known tag is looked up
  in the general row too. Content \<open>{title: "A vs B"}\<close> is classified as comparison, and
  its base score is 25 against title-only and 20 against section-header, not 0.
\<close>

theorem comparison_row_falls_back_to_general:
  "contentType (analyzeContent comparisonContent) = Comparison
   \<and> getCategoryScores (analyzeContent comparisonContent) TitleOnly = 25
   \<and> getCategoryScores (analyzeContent comparisonContent) SectionHeader = 20"
  by code_simp

text \<open>
  Claim C4, amended. For content classified as comparison the base score is 40 against
  title-and-two-columns, 25 against title-and-body and 20 against blank; a category that
  the comparison row lacks is scored by the general row (25 against title-only, 20 against
  section-header), and only category other scores 0. A tag without a row of its own
  (agenda, closing) is scored by the general row, in which category other scores 0.
\<close>

theorem comparison_base_scores:
  "(contentType a = Comparison \<longrightarrow>
      getCategoryScores a TitleAndTwoColumns = 40
    \<and> getCategoryScores a TitleAndBody = 25
    \<and> getCategoryScores a Blank = 20
    \<and> getCategoryScores a TitleOnly = 25
    \<and> getCategoryScores a SectionHeader = 20
    \<and> getCategoryScores a Other = 0)
   \<and> (contentType a = Agenda \<or> contentType a = Closing \<or> contentType a = General \<longrightarrow>
        getCategoryScores a cat = numOr (matrixEntry General cat) 0
      \<and> getCategoryScores a Other = 0)"
  by (auto simp: getCategoryScores_def matrixEntry_def numOr_def)

theorem comparison_base_scores_witness:
  "contentType (analyzeContent comparisonContent) = Comparison
   \<and> getCategoryScores (analyzeContent comparisonContent) TitleAndTwoColumns = 40
   \<and> getCategoryScores (analyzeContent comparisonContent) TitleAndBody = 25
   \<and> getCategoryScores (analyzeContent comparisonContent) Blank = 20
   \<and> getCategoryScores (analyzeContent comparisonContent) Other = 0
   \<and> contentType (analyzeContent weeklyAgendaContent) = Agenda
   \<and> getCategoryScores (analyzeContent weeklyAgendaContent) TitleAndBody = 35
   \<and> getCategoryScores (analyzeContent weeklyAgendaContent) Other = 0"
proof -
  have c: "contentType (analyzeContent comparisonContent) = Comparison"
    by code_simp
  have g: "contentType (analyzeContent weeklyAgendaContent) = Agenda"
    by code_simp
  have m: "numOr (matrixEntry General TitleAndBody) 0 = 35"
    by code_simp
  from c g m
    comparison_base_scores [of "analyzeContent comparisonContent"]
    comparison_base_scores [of "analyzeContent weeklyAgendaContent" TitleAndBody]
  show ?thesis by simp
qed


section \<open>The template categorizers\<close>

text \<open>
  In \<open>LayoutAnalyzer.determineLayoutCategory\<close> the structural test for a section header
  (title and subtitle) comes after the tests on the number of body-like placeholders,
  which count the subtitle: it is never reached. A section header is assigned by name only.
\<close>

lemma determineLayoutCategory_SectionHeader_by_name:
  assumes "determineLayoutCategory ts n = SectionHeader"
  shows "strIncludes (toUpperCase (orEmpty n)) ''SECTION_HEADER''
         \<or> strIncludes (toUpperCase (orEmpty n)) ''SECTION HEADER''"
proof (rule ccontr)
  assume no: "\<not> ?thesis"
  let ?k = "length (filter (\<lambda>t. t = ''BODY'' \<or> t = ''CONTENT'' \<or> t = ''SUBTITLE'') ts)"
  have k: "?k \<noteq> 0" if "''SUBTITLE'' \<in> set ts"
    using that by (auto simp: filter_empty_conv)
  have "?k = 0 \<or> ?k = 1 \<or> 2 \<le> ?k" by arith
  with assms no k show False
    by (auto simp: determineLayoutCategory_def Let_def split: if_splits)
qed

text \<open>
  Claim C6 fails on both categorizers. The template named "Custom" with one title and two
  subtitle placeholders has no category token in its name, has a title and a subtitle
  role, no body or content role, and more than one placeholder besides the title; the
  extractor-side categorizer assigns title-and-two-columns (its count of body-like
  placeholders includes subtitles) and the scorer-side categorizer assigns title-only
  (it looks for a body placeholder only). Neither assigns section-header.
\<close>

theorem title_with_subtitles_not_sectionHeader:
  "map ph_type (placeholders twoSubtitleLayout) = [''TITLE'', ''SUBTITLE'', ''SUBTITLE'']
   \<and> \<not> strIncludes (toUpperCase (orEmpty (displayName twoSubtitleLayout))) ''TITLE_ONLY''
   \<and> \<not> strIncludes (toUpperCase (orEmpty (displayName twoSubtitleLayout))) ''TITLE ONLY''
   \<and> \<not> strIncludes (toUpperCase (orEmpty (displayName twoSubtitleLayout))) ''SECTION_HEADER''
   \<and> \<not> strIncludes (toUpperCase (orEmpty (displayName twoSubtitleLayout))) ''SECTION HEADER''
   \<and> \<not> strIncludes (toUpperCase (orEmpty (displayName twoSubtitleLayout))) ''TWO_COLUMNS''
   \<and> \<not> strIncludes (toUpperCase (orEmpty (displayName twoSubtitleLayout))) ''TWO COLUMNS''
   \<and> \<not> strIncludes (toUpperCase (orEmpty (displayName twoSubtitleLayout))) ''BLANK''
   \<and> determineLayoutCategory (map ph_type (placeholders twoSubtitleLayout))
        (displayName twoSubtitleLayout) = TitleAndTwoColumns
   \<and> getLayoutCategory twoSubtitleLayout = TitleOnly"
  by code_simp

text \<open>
  Claim C7 fails: the two categorizers disagree. For the template named "Section header"
  with a title placeholder, the extractor-side categorizer finds the token
  "SECTION HEADER" in the name and assigns section-header; the scorer-side categorizer
  knows "SECTION_HEADER" only, falls through to the placeholders and assigns title-only.
\<close>

theorem categorizers_disagree:
  "determineLayoutCategory (map ph_type (placeholders sectionHeaderLayout))
      (displayName sectionHeaderLayout) = SectionHeader
   \<and> getLayoutCategory sectionHeaderLayout = TitleOnly"
  by code_simp


section \<open>The template extractor\<close>

lemma forEachElement_readable:
  "list_all (\<lambda>e. e \<noteq> Nullish) es \<Longrightarrow> \<exists>ps. forEachElement acc es = Inr ps"
proof (induction acc es rule: forEachElement.induct)
  case (1 acc)
  show ?case by simp
next
  case (2 acc rest)
  then show ?case by simp
next
  case (3 acc element rest)
  then show ?case by simp
qed

lemma forEachElement_unreadable:
  "\<not> list_all (\<lambda>e. e \<noteq> Nullish) es \<Longrightarrow> forEachElement acc es = Inl TypeError"
  by (induction acc es rule: forEachElement.induct) simp_all

lemma extractPlaceholders_readable:
  "elementsReadable (pageElements l) \<Longrightarrow> \<exists>ps. extractPlaceholders l = Inr ps"
  by (cases "pageElements l")
     (simp_all add: elementsReadable_def extractPlaceholders_def forEachElement_readable)

lemma extractPlaceholders_unreadable:
  "\<not> elementsReadable (pageElements l) \<Longrightarrow> extractPlaceholders l = Inl TypeError"
  by (cases "pageElements l")
     (simp_all add: elementsReadable_def extractPlaceholders_def forEachElement_unreadable)

lemma extractLayout_readable:
  "elementsReadable (pageElements l) \<Longrightarrow> \<exists>t. extractLayout l = Inr t"
  using extractPlaceholders_readable [of l] by (auto simp: extractLayout_def)

lemma extractLayout_unreadable:
  "\<not> elementsReadable (pageElements l) \<Longrightarrow> extractLayout l = Inl TypeError"
  using extractPlaceholders_unreadable [of l] by (simp add: extractLayout_def)

lemma layoutReadable_Obj: "layoutReadable (Obj l) = elementsReadable (pageElements l)"
  by (simp add: layoutReadable_def)

lemma layoutReadable_Nullish: "\<not> layoutReadable Nullish"
  by (simp add: layoutReadable_def)

text \<open>One template is pushed for every raw layout, in order.\<close>

lemma forEachLayout_readable:
  "list_all layoutReadable ls \<Longrightarrow>
     \<exists>ts. forEachLayout acc ls = Inr ts \<and> length ts = length acc + length ls"
proof (induction acc ls rule: forEachLayout.induct)
  case (1 acc)
  show ?case by simp
next
  case (2 acc rest)
  then show ?case by (simp add: layoutReadable_Nullish)
next
  case (3 acc l rest)
  from "3.prems" have r: "elementsReadable (pageElements l)" and rest: "list_all layoutReadable rest"
    by (simp_all add: layoutReadable_Obj)
  from extractLayout_readable [OF r] obtain t where t: "extractLayout l = Inr t" by blast
  from "3.IH" [OF t rest] t show ?case by auto
qed

lemma forEachLayout_unreadable:
  "\<not> list_all layoutReadable ls \<Longrightarrow> forEachLayout acc ls = Inl TypeError"
proof (induction acc ls rule: forEachLayout.induct)
  case (1 acc)
  then show ?case by simp
next
  case (2 acc rest)
  show ?case by simp
next
  case (3 acc l rest)
  show ?case
  proof (cases "elementsReadable (pageElements l)")
    case False
    then show ?thesis by (simp add: extractLayout_unreadable)
  next
    case True
    from extractLayout_readable [OF True] obtain t where t: "extractLayout l = Inr t" by blast
    from True "3.prems" have "\<not> list_all layoutReadable rest"
      by (simp add: layoutReadable_Obj)
    from "3.IH" [OF t this] t show ?thesis by simp
  qed
qed

text \<open>
  Claim C8, as stated, fails: absent and malformed input raises. \<open>extractLayouts\<close> reads
  \<open>presentation.layouts\<close> without a test of \<open>presentation\<close>, so \<open>null\<close> or \<open>undefined\<close>
  raises a TypeError; it guards a falsy \<open>layouts\<close> only, so the malformed presentations
  \<open>{layouts: {}}\<close>, \<open>{layouts: [null]}\<close> and
  \<open>{layouts: [{objectId: "layout_1", pageElements: {}}]}\<close> raise a TypeError as well. In
  none of these cases is an empty sequence returned.
\<close>

theorem extractLayouts_nullish_raises:
  "extractLayouts Nullish = Inl TypeError \<and> extractLayouts Nullish \<noteq> Inr []
   \<and> extractLayouts (Obj presentationLayoutsNotArray) = Inl TypeError
   \<and> extractLayouts (Obj presentationNullLayout) = Inl TypeError
   \<and> extractLayouts (Obj presentationElementsNotArray) = Inl TypeError"
  by (simp add: extractLayouts_def presentationLayoutsNotArray_def presentationNullLayout_def
        presentationElementsNotArray_def extractLayout_def extractPlaceholders_def)

text \<open>
  Claim C8, amended. \<open>extractLayouts\<close> returns the empty sequence, without raising,
  exactly for a presentation object that lacks a layouts field (or holds a falsy one) or
  has zero layouts. It raises a TypeError exactly for an absent (\<open>null\<close> or \<open>undefined\<close>)
  presentation and for a malformed one: a layouts value that is truthy and not an array,
  a layout entry that is \<open>null\<close> or \<open>undefined\<close>, or a layout whose page elements are a
  truthy value that is not an array or contain \<open>null\<close> or \<open>undefined\<close>. For every other
  presentation it returns one template per raw layout.
\<close>

theorem extractLayouts_of_object:
  "(extractLayouts p = Inr []
      \<longleftrightarrow> (\<exists>pres. p = Obj pres
                 \<and> (layouts pres = FieldMissing \<or> layouts pres = FieldArray [])))
   \<and> (extractLayouts p = Inl TypeError
      \<longleftrightarrow> p = Nullish
          \<or> (\<exists>pres. p = Obj pres
                 \<and> (layouts pres = FieldNotArray
                      \<or> (\<exists>ls. layouts pres = FieldArray ls \<and> \<not> list_all layoutReadable ls))))
   \<and> (\<forall>pres ls. p = Obj pres \<and> layouts pres = FieldArray ls \<and> list_all layoutReadable ls
         \<longrightarrow> (\<exists>ts. extractLayouts p = Inr ts \<and> length ts = length ls))"
proof (cases p)
  case Nullish
  then show ?thesis by (simp add: extractLayouts_def)
next
  case (Obj pres)
  show ?thesis
  proof (cases "layouts pres")
    case FieldMissing
    with Obj show ?thesis by (simp add: extractLayouts_def)
  next
    case FieldNotArray
    with Obj show ?thesis by (simp add: extractLayouts_def)
  next
    case (FieldArray ls)
    have e: "extractLayouts p = forEachLayout [] ls"
      using Obj FieldArray by (simp add: extractLayouts_def)
    show ?thesis
    proof (cases "list_all layoutReadable ls")
      case True
      from forEachLayout_readable [OF True, of "[]"] obtain ts where
        ts: "forEachLayout [] ls = Inr ts" "length ts = length ls"
        by auto
      with e Obj FieldArray True show ?thesis by auto
    next
      case False
      from forEachLayout_unreadable [OF False, of "[]"] e
      have r: "extractLayouts p = Inl TypeError" by simp
      from False have "ls \<noteq> []" by auto
      with r Obj FieldArray False show ?thesis by auto
    qed
  qed
qed

text \<open>
  The presentations \<open>{}\<close> and \<open>{layouts: []}\<close> give the empty sequence, and a
  presentation with two readable layouts gives two templates.
\<close>

theorem extractLayouts_of_object_witness:
  "extractLayouts (Obj presentationWithoutLayouts) = Inr []
   \<and> extractLayouts (Obj presentationZeroLayouts) = Inr []
   \<and> (\<exists>ts. extractLayouts (Obj presentationTwoLayouts) = Inr ts \<and> length ts = 2)"
proof -
  have a: "layouts presentationWithoutLayouts = FieldMissing"
    by (simp add: presentationWithoutLayouts_def)
  have b: "layouts presentationZeroLayouts = FieldArray []"
    by (simp add: presentationZeroLayouts_def)
  define ls where "ls = (case layouts presentationTwoLayouts of FieldArray xs \<Rightarrow> xs | _ \<Rightarrow> [])"
  have c: "layouts presentationTwoLayouts = FieldArray ls"
    by (simp add: ls_def presentationTwoLayouts_def)
  have d: "list_all layoutReadable ls"
    by (simp add: ls_def presentationTwoLayouts_def layoutReadable_def elementsReadable_def)
  have n: "length ls = 2"
    by (simp add: ls_def presentationTwoLayouts_def)
  from extractLayouts_of_object [of "Obj presentationTwoLayouts"] c d
  have "\<exists>ts. extractLayouts (Obj presentationTwoLayouts) = Inr ts \<and> length ts = length ls"
    by blast
  with n a b extractLayouts_of_object [of "Obj presentationWithoutLayouts"]
    extractLayouts_of_object [of "Obj presentationZeroLayouts"]
  show ?thesis by auto
qed

text \<open>The two templates of the example, as extracted.\<close>

lemma extractLayouts_example:
  "map_sum id (map (\<lambda>t. (objectId t, displayName t, map ph_type (placeholders t), score t)))
     (extractLayouts (Obj presentationTwoLayouts))
   = Inr [(''layout_1'', Some ''Title only'', [''TITLE''], 0),
          (''layout_2'', Some ''Unnamed Layout'', [], 0)]"
  by code_simp


section \<open>The selector\<close>

lemma length_sortByScoreDesc: "length (sortByScoreDesc xs) = length xs"
  by (simp add: sortByScoreDesc_def)

lemma mset_sortByScoreDesc: "mset (sortByScoreDesc xs) = mset xs"
  by (simp add: sortByScoreDesc_def)

lemma sorted_sortByScoreDesc: "sorted_wrt (\<lambda>a b. score b \<le> score a) (sortByScoreDesc xs)"
proof -
  have "sorted (map (\<lambda>l. - score l) (sortByScoreDesc xs))"
    unfolding sortByScoreDesc_def by (rule sorted_sort_key)
  then show ?thesis
    by (simp add: sorted_map)
qed

text \<open>Stability: templates of equal score keep their order.\<close>

lemma stable_sortByScoreDesc:
  "filter (\<lambda>l. score l = k) (sortByScoreDesc xs) = filter (\<lambda>l. score l = k) xs"
  using sort_key_stable [of "\<lambda>l. - score l" "- k" xs]
  by (simp add: sortByScoreDesc_def)

lemma first_of_filter:
  "filter P xs = y # ys \<Longrightarrow> \<exists>i<length xs. xs ! i = y \<and> (\<forall>j<i. \<not> P (xs ! j))"
proof (induction xs)
  case Nil
  then show ?case by simp
next
  case (Cons a xs)
  show ?case
  proof (cases "P a")
    case True
    with Cons.prems have "a = y" by simp
    then have "(a # xs) ! 0 = y \<and> (\<forall>j<0. \<not> P ((a # xs) ! j))" by simp
    then show ?thesis by blast
  next
    case False
    with Cons.prems have "filter P xs = y # ys" by simp
    from Cons.IH [OF this] obtain i where i: "i < length xs" "xs ! i = y" "\<forall>j<i. \<not> P (xs ! j)"
      by blast
    have "\<forall>j<Suc i. \<not> P ((a # xs) ! j)"
    proof (intro allI impI)
      fix j assume "j < Suc i"
      then show "\<not> P ((a # xs) ! j)"
        using False i(3) by (cases j) auto
    qed
    with i(1,2) have "Suc i < length (a # xs) \<and> (a # xs) ! Suc i = y
        \<and> (\<forall>j<Suc i. \<not> P ((a # xs) ! j))"
      by simp
    then show ?thesis by blast
  qed
qed

lemma hd_sortByScoreDesc_max:
  assumes "xs \<noteq> []" and "l \<in> set xs"
  shows "score l \<le> score (hd (sortByScoreDesc xs))"
proof -
  obtain b rest where r: "sortByScoreDesc xs = b # rest"
    using assms(1) length_sortByScoreDesc [of xs] by (cases "sortByScoreDesc xs") auto
  have "set (sortByScoreDesc xs) = set xs"
    by (simp add: sortByScoreDesc_def)
  with assms(2) r have "l = b \<or> l \<in> set rest" by auto
  moreover have "\<forall>z\<in>set rest. score z \<le> score b"
    using sorted_sortByScoreDesc [of xs] r by simp
  ultimately show ?thesis using r by auto
qed

text \<open>The head of the ranking is the earliest element of maximal score.\<close>

lemma hd_sortByScoreDesc_earliest:
  assumes "xs \<noteq> []"
  shows "\<exists>i<length xs. hd (sortByScoreDesc xs) = xs ! i
           \<and> (\<forall>j<length xs. score (xs ! j) \<le> score (xs ! i))
           \<and> (\<forall>j<i. score (xs ! j) < score (xs ! i))"
proof -
  obtain b rest where r: "sortByScoreDesc xs = b # rest"
    using assms length_sortByScoreDesc [of xs] by (cases "sortByScoreDesc xs") auto
  have "filter (\<lambda>l. score l = score b) xs = filter (\<lambda>l. score l = score b) (b # rest)"
    using stable_sortByScoreDesc [of "score b" xs] r by simp
  then have "filter (\<lambda>l. score l = score b) xs = b # filter (\<lambda>l. score l = score b) rest"
    by simp
  from first_of_filter [OF this] obtain i where
    i: "i < length xs" "xs ! i = b" "\<forall>j<i. score (xs ! j) \<noteq> score b"
    by blast
  have mx: "score (xs ! j) \<le> score b" if "j < length xs" for j
    using hd_sortByScoreDesc_max [OF assms, of "xs ! j"] that r by simp
  have "\<forall>j<i. score (xs ! j) < score (xs ! i)"
  proof (intro allI impI)
    fix j assume "j < i"
    with i(1) have "j < length xs" by simp
    from mx [OF this] i(3) \<open>j < i\<close> i(2) show "score (xs ! j) < score (xs ! i)"
      by (simp add: order_less_le)
  qed
  with i mx r show ?thesis by auto
qed

lemma mset_take_subset: "mset (take n xs) \<subseteq># mset xs"
proof -
  have "mset xs = mset (take n xs) + mset (drop n xs)"
    by (metis append_take_drop_id mset_append)
  then show ?thesis by simp
qed

lemma objectId_scoreLayouts: "map objectId (scoreLayouts a ls) = map objectId ls"
  by (simp add: scoreLayouts_def)

lemma length_scoreLayouts: "length (scoreLayouts a ls) = length ls"
  by (simp add: scoreLayouts_def)

lemma nth_scoreLayouts:
  "i < length ls \<Longrightarrow>
     scoreLayouts a ls ! i = (ls ! i)\<lparr>score := calculateLayoutScore a (ls ! i)\<rparr>"
  by (simp add: scoreLayouts_def)

lemma findBestLayout_nonempty:
  "ls \<noteq> [] \<Longrightarrow> findBestLayout c (Some ls) =
     Inr \<lparr> bestLayout = hd (sortByScoreDesc (scoreLayouts (analyzeContent c) ls)),
           alternatives = take 2 (drop 1 (sortByScoreDesc (scoreLayouts (analyzeContent c) ls))),
           contentAnalysis = analyzeContent c,
           reasoning = generateReasoning (analyzeContent c)
                         (hd (sortByScoreDesc (scoreLayouts (analyzeContent c) ls))) \<rparr>"
  by (simp add: findBestLayout_def Let_def)

text \<open>An array that is \<open>null\<close> or \<open>undefined\<close> fails like the empty one.\<close>

lemma findBestLayout_no_array: "findBestLayout c None = Inl NoLayoutsAvailable"
  by (simp add: findBestLayout_def)

text \<open>
  Claim C1. For every content and every sequence of templates, \<open>findBestLayout\<close> fails
  with the error "No layouts available" (the specification's EmptyCandidateSet) if and
  only if the sequence is empty, and returns a match result when it is not. The failure
  is the only error, and it does not depend on the content: it is decided by the test on
  the sequence, the first statement of the function, before the content is analysed and
  any template is scored.
\<close>

theorem findBestLayout_fails_iff_no_layouts:
  "(findBestLayout c (Some ls) = Inl NoLayoutsAvailable \<longleftrightarrow> ls = [])
   \<and> (ls \<noteq> [] \<longrightarrow> (\<exists>r. findBestLayout c (Some ls) = Inr r))
   \<and> (\<forall>e. findBestLayout c (Some ls) = Inl e \<longrightarrow> e = NoLayoutsAvailable \<and> ls = [])"
  by (cases ls) (auto simp: findBestLayout_def Let_def)

theorem findBestLayout_fails_iff_no_layouts_witness:
  "candidateLayouts \<noteq> []
   \<and> (\<exists>r. findBestLayout strategyContent (Some candidateLayouts) = Inr r)
   \<and> findBestLayout strategyContent (Some candidateLayouts) \<noteq> Inl NoLayoutsAvailable
   \<and> findBestLayout strategyContent (Some []) = Inl NoLayoutsAvailable"
proof -
  have ne: "candidateLayouts \<noteq> []"
    by (simp add: candidateLayouts_def)
  from ne findBestLayout_fails_iff_no_layouts [of strategyContent candidateLayouts]
    findBestLayout_fails_iff_no_layouts [of strategyContent "[]"]
  show ?thesis by blast
qed

text \<open>
  Claim C3. For every content and every non-empty sequence \<open>ls\<close> of templates,
  \<open>findBestLayout\<close> returns a result whose alternatives number \<open>min 2 (length ls - 1)\<close>;
  the best template followed by the alternatives is the first three entries of the
  ranking, which is a rearrangement of the scored templates, descending by score, with
  templates of equal score in their original order. The alternatives are taken from the
  scored templates that remain once the best is removed, so the best template does not
  occur among them a second time; when the templates have distinct ids, the id of the
  best is not the id of an alternative. The best template is the scored copy of the
  earliest template of maximal score.
\<close>

theorem findBestLayout_ranking:
  fixes c :: content and ls :: "layout list"
  defines "scored \<equiv> scoreLayouts (analyzeContent c) ls"
  assumes ne: "ls \<noteq> []"
  shows "\<exists>r. findBestLayout c (Some ls) = Inr r
     \<and> length (alternatives r) = min 2 (length ls - 1)
     \<and> bestLayout r # alternatives r = take 3 (sortByScoreDesc scored)
     \<and> mset (sortByScoreDesc scored) = mset scored
     \<and> sorted_wrt (\<lambda>a b. score b \<le> score a) (sortByScoreDesc scored)
     \<and> (\<forall>k. filter (\<lambda>l. score l = k) (sortByScoreDesc scored)
              = filter (\<lambda>l. score l = k) scored)
     \<and> mset (alternatives r) \<subseteq># mset scored - {#bestLayout r#}
     \<and> (distinct (map objectId ls)
          \<longrightarrow> objectId (bestLayout r) \<notin> objectId ` set (alternatives r))
     \<and> (\<exists>i<length ls.
           bestLayout r = (ls ! i)\<lparr>score := calculateLayoutScore (analyzeContent c) (ls ! i)\<rparr>
         \<and> (\<forall>j<length ls. calculateLayoutScore (analyzeContent c) (ls ! j)
                              \<le> calculateLayoutScore (analyzeContent c) (ls ! i))
         \<and> (\<forall>j<i. calculateLayoutScore (analyzeContent c) (ls ! j)
                     < calculateLayoutScore (analyzeContent c) (ls ! i)))"
proof -
  define ranked where "ranked = sortByScoreDesc scored"
  define r where "r = \<lparr> bestLayout = hd ranked, alternatives = take 2 (drop 1 ranked),
      contentAnalysis = analyzeContent c,
      reasoning = generateReasoning (analyzeContent c) (hd ranked) \<rparr>"
  have res: "findBestLayout c (Some ls) = Inr r"
    unfolding r_def ranked_def scored_def by (rule findBestLayout_nonempty [OF ne])
  have len: "length ranked = length ls"
    by (simp add: ranked_def scored_def length_sortByScoreDesc length_scoreLayouts)
  with ne obtain b rest where br: "ranked = b # rest"
    by (cases ranked) auto
  have best: "bestLayout r = b" and alts: "alternatives r = take 2 rest"
    by (simp_all add: r_def br)
  have sne: "scored \<noteq> []"
    using ne by (simp add: scored_def scoreLayouts_def)
  have p1: "length (alternatives r) = min 2 (length ls - 1)"
    using len br by (auto simp: alts)
  have p2: "bestLayout r # alternatives r = take 3 ranked"
    by (simp add: best alts br numeral_3_eq_3 numeral_2_eq_2)
  have p3: "mset ranked = mset scored"
    by (simp add: ranked_def mset_sortByScoreDesc)
  have p4: "sorted_wrt (\<lambda>a b. score b \<le> score a) ranked"
    unfolding ranked_def by (rule sorted_sortByScoreDesc)
  have p5: "\<forall>k. filter (\<lambda>l. score l = k) ranked = filter (\<lambda>l. score l = k) scored"
    by (simp add: ranked_def stable_sortByScoreDesc)
  have "mset scored = add_mset b (mset rest)"
    using p3 br by simp
  then have "mset scored - {#b#} = mset rest"
    by simp
  then have p6: "mset (alternatives r) \<subseteq># mset scored - {#bestLayout r#}"
    by (simp add: best alts mset_take_subset)
  have p7: "objectId (bestLayout r) \<notin> objectId ` set (alternatives r)"
    if d: "distinct (map objectId ls)"
  proof -
    have "mset (map objectId ranked) = mset (map objectId ls)"
      using p3 objectId_scoreLayouts [of "analyzeContent c" ls]
      by (metis mset_map scored_def)
    then have "distinct (map objectId ranked)"
      using d mset_eq_imp_distinct_iff by blast
    then have "objectId b \<notin> objectId ` set rest"
      by (simp add: br)
    moreover have "set (take 2 rest) \<subseteq> set rest"
      by (rule set_take_subset)
    ultimately show ?thesis
      by (auto simp: best alts)
  qed
  from hd_sortByScoreDesc_earliest [OF sne] obtain i where
    i: "i < length scored" "hd (sortByScoreDesc scored) = scored ! i"
       "\<forall>j<length scored. score (scored ! j) \<le> score (scored ! i)"
       "\<forall>j<i. score (scored ! j) < score (scored ! i)"
    by blast
  have ls: "length scored = length ls"
    by (simp add: scored_def length_scoreLayouts)
  have sc: "score (scored ! j) = calculateLayoutScore (analyzeContent c) (ls ! j)"
    if "j < length ls" for j
    using that by (simp add: scored_def nth_scoreLayouts)
  have il: "i < length ls" using i(1) ls by simp
  have q1: "bestLayout r = (ls ! i)\<lparr>score := calculateLayoutScore (analyzeContent c) (ls ! i)\<rparr>"
    using i(2) il by (simp add: best [symmetric] r_def ranked_def scored_def nth_scoreLayouts)
  have q2: "\<forall>j<length ls. calculateLayoutScore (analyzeContent c) (ls ! j)
                              \<le> calculateLayoutScore (analyzeContent c) (ls ! i)"
    using i(3) ls il sc by auto
  have q3: "\<forall>j<i. calculateLayoutScore (analyzeContent c) (ls ! j)
                     < calculateLayoutScore (analyzeContent c) (ls ! i)"
    using i(4) il sc by auto
  from il q1 q2 q3 have p8: "\<exists>i<length ls.
           bestLayout r = (ls ! i)\<lparr>score := calculateLayoutScore (analyzeContent c) (ls ! i)\<rparr>
         \<and> (\<forall>j<length ls. calculateLayoutScore (analyzeContent c) (ls ! j)
                              \<le> calculateLayoutScore (analyzeContent c) (ls ! i))
         \<and> (\<forall>j<i. calculateLayoutScore (analyzeContent c) (ls ! j)
                     < calculateLayoutScore (analyzeContent c) (ls ! i))"
    by blast
  from res p1 p2 p3 p4 p5 p6 p7 p8 show ?thesis
    unfolding ranked_def by blast
qed

text \<open>
  On the four example templates the content "Q1 Strategy" gets two alternatives, and the
  id of the best template is not among theirs.
\<close>

theorem findBestLayout_ranking_witness:
  "candidateLayouts \<noteq> [] \<and> distinct (map objectId candidateLayouts)
   \<and> (\<exists>r. findBestLayout strategyContent (Some candidateLayouts) = Inr r
          \<and> length (alternatives r) = 2
          \<and> objectId (bestLayout r) \<notin> objectId ` set (alternatives r))"
proof -
  have ne: "candidateLayouts \<noteq> []"
    by (simp add: candidateLayouts_def)
  have d: "distinct (map objectId candidateLayouts)"
    by (simp add: candidateLayouts_def mkLayout_def)
  have n: "min 2 (length candidateLayouts - 1) = 2"
    by (simp add: candidateLayouts_def)
  from findBestLayout_ranking [OF ne, of strategyContent] obtain r where
    "findBestLayout strategyContent (Some candidateLayouts) = Inr r"
    "length (alternatives r) = min 2 (length candidateLayouts - 1)"
    "distinct (map objectId candidateLayouts)
       \<longrightarrow> objectId (bestLayout r) \<notin> objectId ` set (alternatives r)"
    by blast
  with ne d n show ?thesis by auto
qed


text \<open>
  The ranking of the example: the scores are 10, 70, 70 and 45 in extraction order, and
  the two templates that tie at 70 keep their order.
\<close>

lemma candidate_scores:
  "map (calculateLayoutScore (analyzeContent strategyContent)) candidateLayouts
     = [10, 70, 70, 45]"
  by code_simp

lemma findBestLayout_example:
  "\<exists>r. findBestLayout strategyContent (Some candidateLayouts) = Inr r
     \<and> map objectId (bestLayout r # alternatives r)
         = [''layout_body'', ''layout_main'', ''layout_title'']
     \<and> map score (bestLayout r # alternatives r) = [70, 70, 45]"
proof -
  have ne: "candidateLayouts \<noteq> []" by (simp add: candidateLayouts_def)
  have "map score (scoreLayouts (analyzeContent strategyContent) candidateLayouts)
          = [10, 70, 70, 45]"
    using candidate_scores by (simp add: scoreLayouts_def comp_def)
  then obtain a b c d where
    s: "scoreLayouts (analyzeContent strategyContent) candidateLayouts = [a, b, c, d]"
       "score a = 10" "score b = 70" "score c = 70" "score d = 45"
    by (auto simp: map_eq_Cons_conv)
  have ids: "map objectId [a, b, c, d]
               = [''layout_blank'', ''layout_body'', ''layout_main'', ''layout_title'']"
    using objectId_scoreLayouts [of "analyzeContent strategyContent" candidateLayouts]
    unfolding s(1) by (simp add: candidateLayouts_def mkLayout_def)
  have "sortByScoreDesc [a, b, c, d] = [b, c, d, a]"
    by (simp add: sortByScoreDesc_def s)
  with ids s(2-5) show ?thesis
    by (simp add: findBestLayout_nonempty [OF ne] s(1))
qed

end
